theory Spec2Isabelle
  imports Complex_Main "HOL-Library.Word" "HOL-Library.Multiset" "HOL-Library.AList"
    "HOL-Library.Signed_Division"
begin

section \<open>Conventions of the embedding\<close>

text \<open>
  The Go sources embedded here are \<^verbatim>\<open>internal/docker\<close> (the runtime client with
  \<^verbatim>\<open>calculateCPUPercent\<close>, \<^verbatim>\<open>InspectContainer\<close>, \<^verbatim>\<open>ListContainers\<close>,
  \<^verbatim>\<open>GetContainerStats\<close>, \<^verbatim>\<open>GetEngineInfo\<close>) and \<^verbatim>\<open>internal/collector\<close>
  (\<^verbatim>\<open>Collect\<close>, \<^verbatim>\<open>collectContainerMetrics\<close>, \<^verbatim>\<open>collectEngineMetrics\<close>,
  \<^verbatim>\<open>stateToCode\<close>, \<^verbatim>\<open>healthToCode\<close>).

  \<^item> \<^verbatim>\<open>uint64\<close> is \<open>64 word\<close> and \<^verbatim>\<open>uint32\<close> is \<open>32 word\<close>: subtraction and
    addition wrap around as in Go.
  \<^item> Go's \<^verbatim>\<open>int\<close> values (restart count, exit code, engine counters) are only copied
    and converted, never computed with, and are \<open>int\<close>.
  \<^item> \<^verbatim>\<open>float64\<close> is \<open>real\<close>: a conversion \<^verbatim>\<open>float64(x)\<close> and the four operations
    are exact in the model, so rounding is not represented.
  \<^item> A Go \<^verbatim>\<open>string\<close> is a \<open>string\<close> (a list of bytes).
  \<^item> A call that returns \<^verbatim>\<open>(value, error)\<close> has the type \<open>error + 'a\<close>; a run-time
    panic (a slice bound out of range, a nil pointer dereference) is the value
    \<open>Panics\<close> of \<open>'a exec\<close>.
  \<^item> \<^verbatim>\<open>time.Time\<close> is the number of nanoseconds since Go's zero time
    (January 1, year 1, 00:00:00 UTC), an \<open>int\<close>; \<^verbatim>\<open>time.Duration\<close> is a number of
    nanoseconds within the range of \<^verbatim>\<open>int64\<close>.
\<close>

type_synonym uint64 = "64 word"
type_synonym uint32 = "32 word"
type_synonym float64 = real
type_synonym Time = int
type_synonym Duration = int

datatype error = TransportError | Timeout | StatsUnavailable | ParseError

datatype 'a exec = Panics | Returns 'a

section \<open>Responses of the container runtime API\<close>

text \<open>
  The fields of the Docker API types \<^verbatim>\<open>container.StatsResponse\<close>, the inspect
  response, the list summary and \<^verbatim>\<open>system.Info\<close> that the client reads. Pointer
  fields that the client dereferences are options. A Go map is an association list;
  its order stands for the order in which \<^verbatim>\<open>range\<close> happens to visit it.
\<close>

record api_CPUUsage =
  TotalUsage :: uint64
  PercpuUsage :: "uint64 list"

record api_CPUStats =
  CPUUsage :: api_CPUUsage
  SystemUsage :: uint64
  OnlineCPUs :: uint32

record api_MemoryStats =
  Usage :: uint64
  Limit :: uint64

record api_NetworkStats =
  net_RxBytes :: uint64
  net_TxBytes :: uint64

record api_BlkioStatEntry =
  Op :: string
  Value :: uint64

record api_BlkioStats =
  IoServiceBytesRecursive :: "api_BlkioStatEntry list"

record api_PidsStats =
  Current :: uint64

record StatsResponse =
  CPUStats :: api_CPUStats
  PreCPUStats :: api_CPUStats
  MemoryStats :: api_MemoryStats
  BlkioStats :: api_BlkioStats
  PidsStats :: api_PidsStats
  Networks :: "(string \<times> api_NetworkStats) list"

record api_Health =
  h_Status :: string

record api_State =
  st_Status :: string
  st_Running :: bool
  st_ExitCode :: int
  st_OOMKilled :: bool
  st_StartedAt :: string
  st_FinishedAt :: string
  st_Health :: "api_Health option"

record api_Config =
  cfg_Image :: string

record InspectResponse =
  insp_ID :: string
  insp_Name :: string
  insp_Created :: string
  insp_RestartCount :: int
  insp_State :: "api_State option"
  insp_Config :: "api_Config option"

record api_Summary =
  sum_ID :: string

record system_Info =
  ServerVersion :: string
  OperatingSystem :: string
  Architecture :: string
  KernelVersion :: string
  ContainersRunning :: int
  ContainersPaused :: int
  ContainersStopped :: int
  Images :: int
  NCPU :: int
  MemTotal :: int

section \<open>Data model of the client\<close>

record ContainerInfo =
  ci_ID :: string
  ci_Name :: string
  ci_Image :: string
  ci_State :: string
  ci_Health :: string
  ci_Created :: Time
  ci_Started :: Time
  ci_Finished :: Time
  ci_RestartCount :: int
  ci_ExitCode :: int
  ci_OOMKilled :: bool
  ci_Running :: bool

record NetworkStats =
  RxBytes :: uint64
  TxBytes :: uint64

record ContainerStats =
  cs_ID :: string
  cs_Name :: string
  cs_CPUPercent :: float64
  cs_CPUUsageTotal :: uint64
  cs_CPUSystem :: uint64
  cs_MemoryUsage :: uint64
  cs_MemoryLimit :: uint64
  cs_MemoryPercent :: float64
  cs_NetworkRxBytes :: uint64
  cs_NetworkTxBytes :: uint64
  cs_Networks :: "(string \<times> NetworkStats) list"
  cs_BlockRead :: uint64
  cs_BlockWrite :: uint64
  cs_PidsCount :: uint64

record EngineInfo =
  ei_Version :: string
  ei_OS :: string
  ei_Arch :: string
  ei_KernelVersion :: string
  ei_ContainersRunning :: int
  ei_ContainersPaused :: int
  ei_ContainersStopped :: int
  ei_Images :: int
  ei_NCPU :: int
  ei_MemTotal :: int

section \<open>Derived metrics\<close>

text \<open>\<^verbatim>\<open>float64(x)\<close> for an unsigned integer \<open>x\<close>.\<close>

definition float64_of :: "'a::len word \<Rightarrow> float64" where
  "float64_of w = real (unat w)"

text \<open>
  \<^verbatim>\<open>calculateCPUPercent\<close>: both deltas are computed in \<^verbatim>\<open>uint64\<close> and converted
  afterwards.
\<close>

definition calculateCPUPercent :: "StatsResponse \<Rightarrow> float64" where
  "calculateCPUPercent stats =
     (let cpuDelta = float64_of (TotalUsage (CPUUsage (CPUStats stats))
                                  - TotalUsage (CPUUsage (PreCPUStats stats)));
          systemDelta = float64_of (SystemUsage (CPUStats stats)
                                     - SystemUsage (PreCPUStats stats))
      in if systemDelta > 0 \<and> cpuDelta > 0 then
           (let cpuCount = float64_of (OnlineCPUs (CPUStats stats));
                cpuCount = (if cpuCount = 0
                            then real (length (PercpuUsage (CPUUsage (CPUStats stats))))
                            else cpuCount);
                cpuCount = (if cpuCount = 0 then 1 else cpuCount)
            in (cpuDelta / systemDelta) * cpuCount * 100)
         else 0)"

text \<open>\<^verbatim>\<open>stateToCode\<close> and \<^verbatim>\<open>healthToCode\<close>: a \<^verbatim>\<open>switch\<close> on the string.\<close>

definition stateToCode :: "string \<Rightarrow> int" where
  "stateToCode state =
     (if state = ''running'' then 1
      else if state = ''paused'' then 2
      else if state = ''restarting'' then 3
      else if state = ''exited'' then 4
      else if state = ''dead'' then 5
      else if state = ''created'' then 6
      else 0)"

definition healthToCode :: "string \<Rightarrow> int" where
  "healthToCode health =
     (if health = ''healthy'' then 1
      else if health = ''unhealthy'' then 0
      else if health = ''starting'' then 2
      else - 1)"

section \<open>Time\<close>

text \<open>
  The parts of Go's \<^verbatim>\<open>time\<close> package that the program calls. \<^verbatim>\<open>Sub\<close> saturates at
  the range of \<^verbatim>\<open>Duration\<close>; \<^verbatim>\<open>Seconds\<close> adds the whole seconds and the
  fraction, both obtained by truncating division; \<^verbatim>\<open>Unix\<close> counts whole seconds from
  1970, which lies 62135596800 seconds after the zero time.
\<close>

definition minDuration :: Duration where
  "minDuration = - (2 ^ 63)"

definition maxDuration :: Duration where
  "maxDuration = 2 ^ 63 - 1"

definition saturate :: "int \<Rightarrow> Duration" where
  "saturate d = (if d < minDuration then minDuration
                 else if maxDuration < d then maxDuration else d)"

definition Sub :: "Time \<Rightarrow> Time \<Rightarrow> Duration" where
  "Sub t u = saturate (t - u)"

definition Seconds :: "Duration \<Rightarrow> float64" where
  "Seconds d = real_of_int (d sdiv 1000000000) + real_of_int (d smod 1000000000) / 1000000000"

definition IsZero :: "Time \<Rightarrow> bool" where
  "IsZero t \<longleftrightarrow> t = 0"

definition Unix :: "Time \<Rightarrow> int" where
  "Unix t = t div 1000000000 - 62135596800"

text \<open>
  A reading of \<^verbatim>\<open>time.Now()\<close> carries the wall clock and the monotonic clock.
\<close>

record instant =
  wall :: Time
  monotonic :: int

section \<open>The environment of one scrape\<close>

text \<open>
  What the daemon answers to each request of the scrape (a request that runs into the
  deadline of the scrape's context answers with an error), the outcome of
  \<^verbatim>\<open>time.Parse(time.RFC3339Nano, s)\<close> (\<open>None\<close> is a parse error), the successive
  readings of the clock, and the build variables of package \<^verbatim>\<open>config\<close>.
  \<open>cli_ContainerStats\<close> stands for the request, the read of its body and the JSON
  decoding, each of which returns its error to the caller of \<^verbatim>\<open>GetContainerStats\<close>.
\<close>

record Client =
  cli_ContainerList :: "error + api_Summary list"
  cli_ContainerInspect :: "string \<Rightarrow> error + InspectResponse"
  cli_ContainerStats :: "string \<Rightarrow> error + StatsResponse"
  cli_Info :: "error + system_Info"

record env =
  cli :: Client
  time_Parse :: "string \<Rightarrow> Time option"
  clock :: "nat \<Rightarrow> instant"
  config_Version :: string
  config_GoVersion :: string

text \<open>
  The clock is read through a counter of the readings taken so far.
  \<open>time_Since\<close> is \<^verbatim>\<open>time.Since(t)\<close> for a parsed \<open>t\<close> (it has no monotonic reading,
  so the wall clock is compared); \<open>time_Since_mono\<close> is \<^verbatim>\<open>time.Since(start)\<close> for a
  \<open>start\<close> returned by \<^verbatim>\<open>time.Now()\<close>.
\<close>

definition time_Now :: "env \<Rightarrow> nat \<Rightarrow> instant \<times> nat" where
  "time_Now e k = (clock e k, Suc k)"

definition time_Since :: "env \<Rightarrow> nat \<Rightarrow> Time \<Rightarrow> Duration \<times> nat" where
  "time_Since e k t = (case time_Now e k of (now, k') \<Rightarrow> (Sub (wall now) t, k'))"

definition time_Since_mono :: "env \<Rightarrow> nat \<Rightarrow> instant \<Rightarrow> Duration \<times> nat" where
  "time_Since_mono e k start =
     (case time_Now e k of (now, k') \<Rightarrow> (saturate (monotonic now - monotonic start), k'))"

section \<open>The runtime client\<close>

definition TrimPrefix :: "string \<Rightarrow> string \<Rightarrow> string" where
  "TrimPrefix s p = (if take (length p) s = p then drop (length p) s else s)"

text \<open>
  \<^verbatim>\<open>InspectContainer\<close>. \<^verbatim>\<open>inspect.ID[:12]\<close> panics on an identifier of fewer than
  12 bytes, \<^verbatim>\<open>inspect.Config.Image\<close> and \<^verbatim>\<open>inspect.State.Status\<close> on a nil pointer.
\<close>

definition InspectContainer :: "env \<Rightarrow> string \<Rightarrow> (error + ContainerInfo) exec" where
  "InspectContainer e containerID =
     (case cli_ContainerInspect (cli e) containerID of
        Inl err \<Rightarrow> Returns (Inl err)
      | Inr inspect \<Rightarrow>
          if length (insp_ID inspect) < 12 then Panics
          else (case insp_Config inspect of
             None \<Rightarrow> Panics
           | Some config \<Rightarrow>
          (case insp_State inspect of
             None \<Rightarrow> Panics
           | Some state \<Rightarrow>
          (let info = \<lparr> ci_ID = take 12 (insp_ID inspect),
                        ci_Name = TrimPrefix (insp_Name inspect) ''/'',
                        ci_Image = cfg_Image config,
                        ci_State = st_Status state,
                        ci_Health = [],
                        ci_Created = 0,
                        ci_Started = 0,
                        ci_Finished = 0,
                        ci_RestartCount = insp_RestartCount inspect,
                        ci_ExitCode = st_ExitCode state,
                        ci_OOMKilled = st_OOMKilled state,
                        ci_Running = st_Running state \<rparr>;
               info = (case time_Parse e (insp_Created inspect) of
                         Some created \<Rightarrow> info\<lparr>ci_Created := created\<rparr>
                       | None \<Rightarrow> info);
               info = (case time_Parse e (st_StartedAt state) of
                         Some started \<Rightarrow> info\<lparr>ci_Started := started\<rparr>
                       | None \<Rightarrow> info);
               info = (case time_Parse e (st_FinishedAt state) of
                         Some finished \<Rightarrow> info\<lparr>ci_Finished := finished\<rparr>
                       | None \<Rightarrow> info);
               info = (case st_Health state of
                         Some health \<Rightarrow> info\<lparr>ci_Health := h_Status health\<rparr>
                       | None \<Rightarrow> info\<lparr>ci_Health := ''none''\<rparr>)
           in Returns (Inr info)))))"

text \<open>
  \<^verbatim>\<open>ListContainers\<close>: the loop over the listed containers, with \<^verbatim>\<open>continue\<close> on a
  failed inspect and \<^verbatim>\<open>append\<close> otherwise.
\<close>

fun inspect_loop :: "env \<Rightarrow> api_Summary list \<Rightarrow> ContainerInfo list \<Rightarrow> ContainerInfo list exec" where
  "inspect_loop e [] result = Returns result"
| "inspect_loop e (cont # rest) result =
     (case InspectContainer e (sum_ID cont) of
        Panics \<Rightarrow> Panics
      | Returns (Inl err) \<Rightarrow> inspect_loop e rest result
      | Returns (Inr info) \<Rightarrow> inspect_loop e rest (result @ [info]))"

definition ListContainers :: "env \<Rightarrow> (error + ContainerInfo list) exec" where
  "ListContainers e =
     (case cli_ContainerList (cli e) of
        Inl err \<Rightarrow> Returns (Inl err)
      | Inr containers \<Rightarrow>
          (case inspect_loop e containers [] of
             Panics \<Rightarrow> Panics
           | Returns result \<Rightarrow> Returns (Inr result)))"

text \<open>
  \<^verbatim>\<open>GetContainerStats\<close>. The two loops over the network map and the block-IO
  entries are folds of their bodies.
\<close>

definition network_step :: "ContainerStats \<Rightarrow> string \<times> api_NetworkStats \<Rightarrow> ContainerStats" where
  "network_step result entry =
     (case entry of (iface, netStats) \<Rightarrow>
        result\<lparr> cs_Networks := AList.update iface
                   \<lparr> RxBytes = net_RxBytes netStats, TxBytes = net_TxBytes netStats \<rparr>
                   (cs_Networks result),
                cs_NetworkRxBytes := cs_NetworkRxBytes result + net_RxBytes netStats,
                cs_NetworkTxBytes := cs_NetworkTxBytes result + net_TxBytes netStats \<rparr>)"

definition blkio_step :: "ContainerStats \<Rightarrow> api_BlkioStatEntry \<Rightarrow> ContainerStats" where
  "blkio_step result bioEntry =
     (if Op bioEntry = ''read'' \<or> Op bioEntry = ''Read''
      then result\<lparr>cs_BlockRead := cs_BlockRead result + Value bioEntry\<rparr>
      else if Op bioEntry = ''write'' \<or> Op bioEntry = ''Write''
      then result\<lparr>cs_BlockWrite := cs_BlockWrite result + Value bioEntry\<rparr>
      else result)"

definition GetContainerStats :: "env \<Rightarrow> string \<Rightarrow> string \<Rightarrow> (error + ContainerStats) exec" where
  "GetContainerStats e containerID name =
     (case cli_ContainerStats (cli e) containerID of
        Inl err \<Rightarrow> Returns (Inl err)
      | Inr stats \<Rightarrow>
          if length containerID < 12 then Panics
          else
          (let result = \<lparr> cs_ID = take 12 containerID,
                          cs_Name = name,
                          cs_CPUPercent = 0,
                          cs_CPUUsageTotal = 0,
                          cs_CPUSystem = 0,
                          cs_MemoryUsage = 0,
                          cs_MemoryLimit = 0,
                          cs_MemoryPercent = 0,
                          cs_NetworkRxBytes = 0,
                          cs_NetworkTxBytes = 0,
                          cs_Networks = [],
                          cs_BlockRead = 0,
                          cs_BlockWrite = 0,
                          cs_PidsCount = 0 \<rparr>;
               result = result\<lparr>cs_CPUPercent := calculateCPUPercent stats\<rparr>;
               result = result\<lparr>cs_CPUUsageTotal := TotalUsage (CPUUsage (CPUStats stats))\<rparr>;
               result = result\<lparr>cs_CPUSystem := SystemUsage (CPUStats stats)\<rparr>;
               result = result\<lparr>cs_MemoryUsage := Usage (MemoryStats stats)\<rparr>;
               result = result\<lparr>cs_MemoryLimit := Limit (MemoryStats stats)\<rparr>;
               result = (if cs_MemoryLimit result > 0
                         then result\<lparr>cs_MemoryPercent :=
                                float64_of (cs_MemoryUsage result)
                                  / float64_of (cs_MemoryLimit result) * 100\<rparr>
                         else result);
               result = foldl network_step result (Networks stats);
               result = foldl blkio_step result (IoServiceBytesRecursive (BlkioStats stats));
               result = result\<lparr>cs_PidsCount := Current (PidsStats stats)\<rparr>
           in Returns (Inr result)))"

definition GetEngineInfo :: "env \<Rightarrow> error + EngineInfo" where
  "GetEngineInfo e =
     (case cli_Info (cli e) of
        Inl err \<Rightarrow> Inl err
      | Inr info \<Rightarrow>
          Inr \<lparr> ei_Version = ServerVersion info,
                ei_OS = OperatingSystem info,
                ei_Arch = Architecture info,
                ei_KernelVersion = KernelVersion info,
                ei_ContainersRunning = ContainersRunning info,
                ei_ContainersPaused = ContainersPaused info,
                ei_ContainersStopped = ContainersStopped info,
                ei_Images = Images info,
                ei_NCPU = NCPU info,
                ei_MemTotal = MemTotal info \<rparr>)"

section \<open>The collector\<close>

text \<open>
  The descriptors are the fields of \<^verbatim>\<open>Collector\<close> that \<^verbatim>\<open>NewCollector\<close> fills;
  \<open>variableLabels\<close> gives the label names each was created with. A metric is what
  \<^verbatim>\<open>prometheus.MustNewConstMetric\<close> is given.
\<close>

datatype Desc =
    containerInfo | containerState | containerUptime | containerCreated | containerStarted
  | containerRestartCount | containerHealthStatus | containerExitCode | containerOOMKilled
  | containerCPUPercent | containerCPUUsageSeconds
  | containerMemoryUsage | containerMemoryLimit | containerMemoryPercent
  | containerNetworkRxBytes | containerNetworkTxBytes
  | containerBlkioReadBytes | containerBlkioWriteBytes
  | engineInfo | containersTotal | imagesTotal
  | scrapeDuration | buildInfo

fun variableLabels :: "Desc \<Rightarrow> string list" where
  "variableLabels containerInfo = [''id'', ''name'', ''image'', ''state'']"
| "variableLabels containerNetworkRxBytes = [''id'', ''name'', ''interface'']"
| "variableLabels containerNetworkTxBytes = [''id'', ''name'', ''interface'']"
| "variableLabels engineInfo = [''version'', ''os'', ''arch'', ''kernel'']"
| "variableLabels containersTotal = [''state'']"
| "variableLabels imagesTotal = []"
| "variableLabels scrapeDuration = []"
| "variableLabels buildInfo = [''version'', ''go_version'']"
| "variableLabels _ = [''id'', ''name'']"

datatype ValueType = GaugeValue | CounterValue

record Metric =
  m_desc :: Desc
  m_valueType :: ValueType
  m_value :: float64
  m_labelValues :: "string list"

definition MustNewConstMetric :: "Desc \<Rightarrow> ValueType \<Rightarrow> float64 \<Rightarrow> string list \<Rightarrow> Metric" where
  "MustNewConstMetric d vt v lvs =
     \<lparr> m_desc = d, m_valueType = vt, m_value = v, m_labelValues = lvs \<rparr>"

text \<open>
  The goroutines of \<^verbatim>\<open>collectContainerMetrics\<close>: one per running container, each
  sending its sample to \<^verbatim>\<open>statsChan\<close> unless the fetch failed. The list holds the
  samples sent, in the order of the containers; a panic in a goroutine ends the process.
\<close>

fun fetch_stats :: "env \<Rightarrow> ContainerInfo list \<Rightarrow> ContainerStats list exec" where
  "fetch_stats e [] = Returns []"
| "fetch_stats e (cont # rest) =
     (if ci_Running cont then
        (case GetContainerStats e (ci_ID cont) (ci_Name cont) of
           Panics \<Rightarrow> Panics
         | Returns (Inl err) \<Rightarrow> fetch_stats e rest
         | Returns (Inr stats) \<Rightarrow>
             (case fetch_stats e rest of
                Panics \<Rightarrow> Panics
              | Returns sent \<Rightarrow> Returns (stats # sent)))
      else fetch_stats e rest)"

text \<open>
  The loop that drains the channel into \<^verbatim>\<open>statsMap\<close>, on the samples in the order
  in which they arrive.
\<close>

definition drain :: "ContainerStats list \<Rightarrow> (string \<rightharpoonup> ContainerStats)" where
  "drain arrived = foldl (\<lambda>statsMap stats. statsMap(cs_ID stats \<mapsto> stats)) Map.empty arrived"

text \<open>The body of \<^verbatim>\<open>if stats, ok := statsMap[cont.ID]; ok\<close>.\<close>

definition resourceMetrics :: "ContainerInfo \<Rightarrow> ContainerStats \<Rightarrow> Metric list" where
  "resourceMetrics cont stats =
     [ MustNewConstMetric containerCPUPercent GaugeValue (cs_CPUPercent stats)
         [ci_ID cont, ci_Name cont],
       MustNewConstMetric containerCPUUsageSeconds CounterValue
         (float64_of (cs_CPUUsageTotal stats) / 1000000000)
         [ci_ID cont, ci_Name cont],
       MustNewConstMetric containerMemoryUsage GaugeValue (float64_of (cs_MemoryUsage stats))
         [ci_ID cont, ci_Name cont],
       MustNewConstMetric containerMemoryLimit GaugeValue (float64_of (cs_MemoryLimit stats))
         [ci_ID cont, ci_Name cont],
       MustNewConstMetric containerMemoryPercent GaugeValue (cs_MemoryPercent stats)
         [ci_ID cont, ci_Name cont] ]
     @ concat (map (\<lambda>(iface, netStats).
         [ MustNewConstMetric containerNetworkRxBytes CounterValue
             (float64_of (RxBytes netStats)) [ci_ID cont, ci_Name cont, iface],
           MustNewConstMetric containerNetworkTxBytes CounterValue
             (float64_of (TxBytes netStats)) [ci_ID cont, ci_Name cont, iface] ])
         (cs_Networks stats))
     @ [ MustNewConstMetric containerBlkioReadBytes CounterValue
           (float64_of (cs_BlockRead stats)) [ci_ID cont, ci_Name cont],
         MustNewConstMetric containerBlkioWriteBytes CounterValue
           (float64_of (cs_BlockWrite stats)) [ci_ID cont, ci_Name cont] ]"

text \<open>
  The body of the emitting loop for one container: the metrics sent, in order, and the
  counter of clock readings afterwards.
\<close>

definition emitContainer ::
  "env \<Rightarrow> (string \<rightharpoonup> ContainerStats) \<Rightarrow> nat \<Rightarrow> ContainerInfo \<Rightarrow> Metric list \<times> nat" where
  "emitContainer e statsMap k cont =
     (let stateCode = stateToCode (ci_State cont);
          (uptime, k') =
             (if ci_Running cont \<and> \<not> IsZero (ci_Started cont)
              then (case time_Since e k (ci_Started cont) of (d, k') \<Rightarrow> (Seconds d, k'))
              else (0, k));
          healthCode = healthToCode (ci_Health cont);
          oomKilled = (if ci_OOMKilled cont then 1 else 0)
      in ([ MustNewConstMetric containerInfo GaugeValue 1
              [ci_ID cont, ci_Name cont, ci_Image cont, ci_State cont],
            MustNewConstMetric containerState GaugeValue (real_of_int stateCode)
              [ci_ID cont, ci_Name cont],
            MustNewConstMetric containerUptime GaugeValue uptime
              [ci_ID cont, ci_Name cont] ]
          @ (if \<not> IsZero (ci_Created cont)
             then [ MustNewConstMetric containerCreated GaugeValue
                      (real_of_int (Unix (ci_Created cont))) [ci_ID cont, ci_Name cont] ]
             else [])
          @ (if \<not> IsZero (ci_Started cont)
             then [ MustNewConstMetric containerStarted GaugeValue
                      (real_of_int (Unix (ci_Started cont))) [ci_ID cont, ci_Name cont] ]
             else [])
          @ [ MustNewConstMetric containerRestartCount GaugeValue
                (real_of_int (ci_RestartCount cont)) [ci_ID cont, ci_Name cont],
              MustNewConstMetric containerHealthStatus GaugeValue (real_of_int healthCode)
                [ci_ID cont, ci_Name cont],
              MustNewConstMetric containerExitCode GaugeValue
                (real_of_int (ci_ExitCode cont)) [ci_ID cont, ci_Name cont],
              MustNewConstMetric containerOOMKilled GaugeValue oomKilled
                [ci_ID cont, ci_Name cont] ]
          @ (case statsMap (ci_ID cont) of
               Some stats \<Rightarrow> resourceMetrics cont stats
             | None \<Rightarrow> []),
          k'))"

fun emit_loop ::
  "env \<Rightarrow> (string \<rightharpoonup> ContainerStats) \<Rightarrow> nat \<Rightarrow> ContainerInfo list \<Rightarrow> Metric list \<times> nat" where
  "emit_loop e statsMap k [] = ([], k)"
| "emit_loop e statsMap k (cont # rest) =
     (case emitContainer e statsMap k cont of
        (ms, k') \<Rightarrow>
          (case emit_loop e statsMap k' rest of
             (ms', k'') \<Rightarrow> (ms @ ms', k'')))"

text \<open>
  \<^verbatim>\<open>collectContainerMetrics\<close>. \<open>sched\<close> is the order in which the channel delivers
  the samples that the goroutines sent: the scheduler's choice.
\<close>

definition collectContainerMetrics ::
  "env \<Rightarrow> (ContainerStats list \<Rightarrow> ContainerStats list) \<Rightarrow> nat \<Rightarrow> (Metric list \<times> nat) exec" where
  "collectContainerMetrics e sched k =
     (case ListContainers e of
        Panics \<Rightarrow> Panics
      | Returns (Inl err) \<Rightarrow> Returns ([], k)
      | Returns (Inr containers) \<Rightarrow>
          if length containers = 0 then Returns ([], k)
          else (case fetch_stats e containers of
                  Panics \<Rightarrow> Panics
                | Returns sent \<Rightarrow>
                    (let statsMap = drain (sched sent)
                     in Returns (emit_loop e statsMap k containers))))"

definition collectEngineMetrics :: "env \<Rightarrow> Metric list" where
  "collectEngineMetrics e =
     (case GetEngineInfo e of
        Inl err \<Rightarrow> []
      | Inr info \<Rightarrow>
          [ MustNewConstMetric engineInfo GaugeValue 1
              [ei_Version info, ei_OS info, ei_Arch info, ei_KernelVersion info],
            MustNewConstMetric containersTotal GaugeValue
              (real_of_int (ei_ContainersRunning info)) [''running''],
            MustNewConstMetric containersTotal GaugeValue
              (real_of_int (ei_ContainersPaused info)) [''paused''],
            MustNewConstMetric containersTotal GaugeValue
              (real_of_int (ei_ContainersStopped info)) [''stopped''],
            MustNewConstMetric imagesTotal GaugeValue (real_of_int (ei_Images info)) [] ])"

text \<open>
  \<^verbatim>\<open>Collect\<close>: the metrics sent to the channel, in order, or a panic that leaves
  the call.
\<close>

definition Collector_Collect ::
  "env \<Rightarrow> (ContainerStats list \<Rightarrow> ContainerStats list) \<Rightarrow> Metric list exec" where
  "Collector_Collect e sched =
     (case time_Now e 0 of
        (start, k) \<Rightarrow>
          (case collectContainerMetrics e sched k of
             Panics \<Rightarrow> Panics
           | Returns (containerMetrics, k') \<Rightarrow>
               (case time_Since_mono e k' start of
                  (d, k'') \<Rightarrow>
                    Returns
                      ([ MustNewConstMetric buildInfo GaugeValue 1
                           [config_Version e, config_GoVersion e] ]
                       @ containerMetrics
                       @ collectEngineMetrics e
                       @ [ MustNewConstMetric scrapeDuration GaugeValue (Seconds d) [] ]))))"

section \<open>Vocabulary of the properties\<close>

text \<open>
  The sample a container obtains in a scrape: the result of its fetch if it is running
  and the fetch succeeded.
\<close>

definition sample_of :: "env \<Rightarrow> ContainerInfo \<Rightarrow> ContainerStats option" where
  "sample_of e cont =
     (if ci_Running cont then
        (case GetContainerStats e (ci_ID cont) (ci_Name cont) of
           Returns (Inr stats) \<Rightarrow> Some stats
         | _ \<Rightarrow> None)
      else None)"

text \<open>A metric of descriptor \<open>d\<close> whose \<^verbatim>\<open>id\<close> label is that of the container.\<close>

definition metric_of :: "Desc \<Rightarrow> ContainerInfo \<Rightarrow> Metric \<Rightarrow> bool" where
  "metric_of d cont m \<longleftrightarrow>
     m_desc m = d \<and> take 1 (m_labelValues m) = [ci_ID cont]"

definition emitted :: "Metric list \<Rightarrow> Desc \<Rightarrow> ContainerInfo \<Rightarrow> bool" where
  "emitted out d cont \<longleftrightarrow> list_ex (metric_of d cont) out"

definition resource_descs :: "Desc list" where
  "resource_descs =
     [ containerCPUPercent, containerCPUUsageSeconds,
       containerMemoryUsage, containerMemoryLimit, containerMemoryPercent,
       containerNetworkRxBytes, containerNetworkTxBytes,
       containerBlkioReadBytes, containerBlkioWriteBytes ]"

definition container_descs :: "Desc list" where
  "container_descs =
     [ containerInfo, containerState, containerUptime, containerCreated, containerStarted,
       containerRestartCount, containerHealthStatus, containerExitCode, containerOOMKilled ]
     @ resource_descs"

text \<open>
  The containers for which the emitting loop reads the clock, and the number of the
  reading taken for the uptime of the container that follows \<open>before\<close> in the listing:
  reading 0 is the start of the scrape, and every earlier container that is running
  with a known start took one.
\<close>

definition reads_clock :: "ContainerInfo \<Rightarrow> bool" where
  "reads_clock c \<longleftrightarrow> ci_Running c \<and> \<not> IsZero (ci_Started c)"

definition uptime_reading :: "ContainerInfo list \<Rightarrow> nat" where
  "uptime_reading before = 1 + length (filter reads_clock before)"

text \<open>
  Well-formed inspect responses, as the daemon sends them: an identifier of at least 12
  bytes and both the configuration and the state present.
\<close>

definition inspect_wf :: "InspectResponse \<Rightarrow> bool" where
  "inspect_wf r \<longleftrightarrow> 12 \<le> length (insp_ID r) \<and> insp_Config r \<noteq> None \<and> insp_State r \<noteq> None"

text \<open>
  The number of CPUs that \<^verbatim>\<open>calculateCPUPercent\<close> multiplies with: the reported
  number, else the number of per-core counters, else 1.
\<close>

definition onlineCPUs :: "StatsResponse \<Rightarrow> nat" where
  "onlineCPUs stats =
     (if OnlineCPUs (CPUStats stats) \<noteq> 0 then unat (OnlineCPUs (CPUStats stats))
      else if PercpuUsage (CPUUsage (CPUStats stats)) \<noteq> []
      then length (PercpuUsage (CPUUsage (CPUStats stats)))
      else 1)"

text \<open>
  The containers of a listing whose inspect succeeded, converted, in the order of the
  listing.
\<close>

definition inspected :: "env \<Rightarrow> api_Summary list \<Rightarrow> ContainerInfo list" where
  "inspected e containers =
     List.map_filter
       (\<lambda>cont. case InspectContainer e (sum_ID cont) of
                  Returns (Inr info) \<Rightarrow> Some info
                | _ \<Rightarrow> None)
       containers"

text \<open>
  The descriptors of the metrics that the emitting loop sends for a container before it
  looks for a sample.
\<close>

definition coreMetrics_descs :: "ContainerInfo \<Rightarrow> Desc list" where
  "coreMetrics_descs c =
     [containerInfo, containerState, containerUptime]
     @ (if \<not> IsZero (ci_Created c) then [containerCreated] else [])
     @ (if \<not> IsZero (ci_Started c) then [containerStarted] else [])
     @ [containerRestartCount, containerHealthStatus, containerExitCode, containerOOMKilled]"

text \<open>
  The map that \<^verbatim>\<open>collectContainerMetrics\<close> builds from the samples of the
  containers \<open>cs\<close>, and the values that \<^verbatim>\<open>Collect\<close> gives to its two fixed metrics.
\<close>

definition statsMap_of ::
  "env \<Rightarrow> (ContainerStats list \<Rightarrow> ContainerStats list) \<Rightarrow> ContainerInfo list
     \<Rightarrow> (string \<rightharpoonup> ContainerStats)" where
  "statsMap_of e sched cs = drain (sched (List.map_filter (sample_of e) cs))"

definition buildInfo_metric :: "env \<Rightarrow> Metric" where
  "buildInfo_metric e =
     MustNewConstMetric buildInfo GaugeValue 1 [config_Version e, config_GoVersion e]"

definition scrapeDuration_metric :: "env \<Rightarrow> nat \<Rightarrow> Metric" where
  "scrapeDuration_metric e k =
     MustNewConstMetric scrapeDuration GaugeValue
       (Seconds (saturate (monotonic (clock e k) - monotonic (clock e 0)))) []"

text \<open>
  The container-scoped metrics of an output that carry the \<^verbatim>\<open>id\<close> label of a
  container, and the resource metrics among them.
\<close>

definition container_metrics_of :: "Metric list \<Rightarrow> ContainerInfo \<Rightarrow> Metric list" where
  "container_metrics_of out c =
     filter (\<lambda>m. m_desc m \<in> set container_descs \<and> take 1 (m_labelValues m) = [ci_ID c]) out"

definition resource_metrics_of :: "Metric list \<Rightarrow> ContainerInfo \<Rightarrow> Metric list" where
  "resource_metrics_of out c =
     filter (\<lambda>m. m_desc m \<in> set resource_descs \<and> take 1 (m_labelValues m) = [ci_ID c]) out"

text \<open>
  The uptime that the loop computes for the container that follows \<open>before\<close> in the
  listing.
\<close>

definition uptime_of :: "env \<Rightarrow> ContainerInfo list \<Rightarrow> ContainerInfo \<Rightarrow> float64" where
  "uptime_of e before c =
     (if ci_Running c \<and> \<not> IsZero (ci_Started c)
      then Seconds (Sub (wall (clock e (uptime_reading before))) (ci_Started c))
      else 0)"

text \<open>
  The descriptors of the metrics that every container has, and of the resource metrics
  that a sample yields exactly once. The two timestamp metrics and the two network
  metrics (one pair per interface) are the remaining container descriptors.
\<close>

definition lifecycle_descs :: "Desc list" where
  "lifecycle_descs =
     [ containerInfo, containerState, containerUptime, containerRestartCount,
       containerHealthStatus, containerExitCode, containerOOMKilled ]"

definition sample_descs :: "Desc list" where
  "sample_descs =
     [ containerCPUPercent, containerCPUUsageSeconds,
       containerMemoryUsage, containerMemoryLimit, containerMemoryPercent,
       containerBlkioReadBytes, containerBlkioWriteBytes ]"

section \<open>Concrete inputs\<close>

text \<open>
  A stats response with the given CPU counters (current and previous total usage,
  current and previous system usage, online CPUs, per-core counters) and memory
  counters, and nothing else.
\<close>

definition stats_sample ::
  "uint64 \<Rightarrow> uint64 \<Rightarrow> uint64 \<Rightarrow> uint64 \<Rightarrow> uint32 \<Rightarrow> uint64 list \<Rightarrow> uint64 \<Rightarrow> uint64
     \<Rightarrow> StatsResponse" where
  "stats_sample usage preUsage system preSystem online percpu memUsage memLimit =
     \<lparr> CPUStats = \<lparr> CPUUsage = \<lparr> TotalUsage = usage, PercpuUsage = percpu \<rparr>,
                    SystemUsage = system, OnlineCPUs = online \<rparr>,
       PreCPUStats = \<lparr> CPUUsage = \<lparr> TotalUsage = preUsage, PercpuUsage = [] \<rparr>,
                       SystemUsage = preSystem, OnlineCPUs = online \<rparr>,
       MemoryStats = \<lparr> Usage = memUsage, Limit = memLimit \<rparr>,
       BlkioStats = \<lparr> IoServiceBytesRecursive = [] \<rparr>,
       PidsStats = \<lparr> Current = 0 \<rparr>,
       Networks = [] \<rparr>"

text \<open>
  A daemon for the examples. The clock shows 2025-01-01T00:00:00Z at its first reading
  and advances by half a second with every reading; \<open>demo_Parse\<close> parses the three
  time stamps that occur (the zero time is what the daemon reports for a container that
  never started).
\<close>

definition demo_Parse :: "string \<Rightarrow> Time option" where
  "demo_Parse s =
     (if s = ''0001-01-01T00:00:00Z'' then Some 0
      else if s = ''2024-12-31T23:59:50Z'' then Some 63871286390000000000
      else if s = ''2025-01-01T00:00:05Z'' then Some 63871286405000000000
      else None)"

definition demo_clock :: "nat \<Rightarrow> instant" where
  "demo_clock k = \<lparr> wall = 63871286400000000000 + 500000000 * int k,
                    monotonic = 500000000 * int k \<rparr>"

definition demo_inspect :: "string \<Rightarrow> string \<Rightarrow> string \<Rightarrow> bool \<Rightarrow> string \<Rightarrow> InspectResponse" where
  "demo_inspect i n status running started =
     \<lparr> insp_ID = i,
       insp_Name = n,
       insp_Created = ''2024-12-31T23:59:50Z'',
       insp_RestartCount = 0,
       insp_State = Some \<lparr> st_Status = status, st_Running = running, st_ExitCode = 0,
                           st_OOMKilled = False, st_StartedAt = started,
                           st_FinishedAt = ''0001-01-01T00:00:00Z'', st_Health = None \<rparr>,
       insp_Config = Some \<lparr> cfg_Image = ''nginx'' \<rparr> \<rparr>"

text \<open>What \<^verbatim>\<open>InspectContainer\<close> makes of \<open>demo_inspect\<close>, for a start time already parsed.\<close>

definition demo_container :: "string \<Rightarrow> string \<Rightarrow> string \<Rightarrow> bool \<Rightarrow> Time \<Rightarrow> ContainerInfo" where
  "demo_container i n status running started =
     \<lparr> ci_ID = i, ci_Name = n, ci_Image = ''nginx'', ci_State = status, ci_Health = ''none'',
       ci_Created = 63871286390000000000, ci_Started = started, ci_Finished = 0,
       ci_RestartCount = 0, ci_ExitCode = 0, ci_OOMKilled = False, ci_Running = running \<rparr>"

definition demo_info :: system_Info where
  "demo_info =
     \<lparr> ServerVersion = ''27.0'', OperatingSystem = ''linux'', Architecture = ''x86_64'',
       KernelVersion = ''6.1'', ContainersRunning = 3, ContainersPaused = 0,
       ContainersStopped = 0, Images = 1, NCPU = 2, MemTotal = 1073741824 \<rparr>"

definition demo_env ::
  "(error + api_Summary list) \<Rightarrow> (string \<Rightarrow> error + InspectResponse)
     \<Rightarrow> (string \<Rightarrow> error + StatsResponse) \<Rightarrow> (error + system_Info) \<Rightarrow> env" where
  "demo_env listing inspect stats info =
     \<lparr> cli = \<lparr> cli_ContainerList = listing, cli_ContainerInspect = inspect,
               cli_ContainerStats = stats, cli_Info = info \<rparr>,
       time_Parse = demo_Parse,
       clock = demo_clock,
       config_Version = ''dev'',
       config_GoVersion = ''unknown'' \<rparr>"

text \<open>The listing fails with a transport error while the engine lookup succeeds.\<close>

definition env_listing_fails :: env where
  "env_listing_fails =
     demo_env (Inl TransportError) (\<lambda>i. Inl TransportError) (\<lambda>i. Inl TransportError)
       (Inr demo_info)"

text \<open>The listing and the engine lookup both fail.\<close>

definition env_all_fail :: env where
  "env_all_fail =
     demo_env (Inl TransportError) (\<lambda>i. Inl TransportError) (\<lambda>i. Inl TransportError)
       (Inl TransportError)"

text \<open>
  Three running containers; the stats fetch of the second one runs into the deadline.
  The other two use 512 MiB of a limit of 1024 MiB, and 200,000,000 ns of CPU while the
  system used 1,000,000,000 on 2 CPUs.
\<close>

definition env_three :: env where
  "env_three =
     demo_env
       (Inr [\<lparr> sum_ID = ''aaaaaaaaaaaa'' \<rparr>, \<lparr> sum_ID = ''bbbbbbbbbbbb'' \<rparr>,
             \<lparr> sum_ID = ''cccccccccccc'' \<rparr>])
       (\<lambda>i. Inr (demo_inspect i (''/web-'' @ take 1 i) ''running'' True
                    ''2024-12-31T23:59:50Z''))
       (\<lambda>i. if i = ''bbbbbbbbbbbb'' then Inl Timeout
             else Inr (stats_sample 700000000 500000000 3000000000 2000000000 2 []
                         536870912 1073741824))
       (Inr demo_info)"

text \<open>
  Three containers are listed; the second one is removed before it is inspected.
\<close>

definition env_removed :: env where
  "env_removed =
     demo_env
       (Inr [\<lparr> sum_ID = ''aaaaaaaaaaaa'' \<rparr>, \<lparr> sum_ID = ''bbbbbbbbbbbb'' \<rparr>,
             \<lparr> sum_ID = ''cccccccccccc'' \<rparr>])
       (\<lambda>i. if i = ''bbbbbbbbbbbb'' then Inl StatsUnavailable
             else Inr (demo_inspect i (''/web-'' @ take 1 i) ''exited'' False
                         ''2024-12-31T23:59:50Z''))
       (\<lambda>i. Inl StatsUnavailable)
       (Inr demo_info)"

text \<open>One container that was created and never started.\<close>

definition env_never_started :: env where
  "env_never_started =
     demo_env
       (Inr [\<lparr> sum_ID = ''aaaaaaaaaaaa'' \<rparr>])
       (\<lambda>i. Inr (demo_inspect i ''/job'' ''created'' False ''0001-01-01T00:00:00Z''))
       (\<lambda>i. Inl StatsUnavailable)
       (Inr demo_info)"

text \<open>
  Two running containers, the first started 10 seconds before the scrape, the second
  reported by a daemon whose clock is ahead: it started 5 seconds after the scrape's
  first clock reading.
\<close>

definition env_uptime :: env where
  "env_uptime =
     demo_env
       (Inr [\<lparr> sum_ID = ''aaaaaaaaaaaa'' \<rparr>, \<lparr> sum_ID = ''bbbbbbbbbbbb'' \<rparr>])
       (\<lambda>i. if i = ''aaaaaaaaaaaa''
             then Inr (demo_inspect i ''/past'' ''running'' True ''2024-12-31T23:59:50Z'')
             else Inr (demo_inspect i ''/ahead'' ''running'' True ''2025-01-01T00:00:05Z''))
       (\<lambda>i. Inl Timeout)
       (Inl TransportError)"

text \<open>The values and the descriptors of an outcome of \<^verbatim>\<open>Collect\<close>.\<close>

definition values_of :: "Desc \<Rightarrow> Metric list exec \<Rightarrow> float64 list" where
  "values_of d r =
     (case r of
        Panics \<Rightarrow> []
      | Returns out \<Rightarrow> map m_value (filter (\<lambda>m. m_desc m = d) out))"

definition descs_of :: "Metric list exec \<Rightarrow> Desc list" where
  "descs_of r = (case r of Panics \<Rightarrow> [] | Returns out \<Rightarrow> map m_desc out)"

section \<open>Time arithmetic\<close>

lemma Seconds_eq: "Seconds d = real_of_int d / 1000000000"
proof -
  have "(d sdiv 1000000000) * 1000000000 + d smod 1000000000 = d"
    by (rule sdiv_mult_smod_eq)
  then have "real_of_int d
      = real_of_int (d sdiv 1000000000) * 1000000000 + real_of_int (d smod 1000000000)"
    by (metis of_int_add of_int_mult of_int_numeral)
  then show ?thesis
    by (simp add: Seconds_def field_simps)
qed

section \<open>CPU percent\<close>

text \<open>
  What \<^verbatim>\<open>calculateCPUPercent\<close> computes, with the deltas as the code takes them:
  differences modulo \<open>2 ^ 64\<close>.
\<close>

lemma calculateCPUPercent_wrapped:
  "calculateCPUPercent stats =
     (let cpuDelta = real (unat (TotalUsage (CPUUsage (CPUStats stats))
                                  - TotalUsage (CPUUsage (PreCPUStats stats))));
          systemDelta = real (unat (SystemUsage (CPUStats stats)
                                     - SystemUsage (PreCPUStats stats)))
      in if 0 < systemDelta \<and> 0 < cpuDelta
         then cpuDelta / systemDelta * real (onlineCPUs stats) * 100
         else 0)"
proof (cases "OnlineCPUs (CPUStats stats) = 0")
  case True
  then show ?thesis
    by (cases "PercpuUsage (CPUUsage (CPUStats stats))")
      (simp_all add: calculateCPUPercent_def float64_of_def Let_def onlineCPUs_def)
next
  case False
  then show ?thesis
    by (simp add: calculateCPUPercent_def float64_of_def Let_def onlineCPUs_def
        unsigned_eq_0_iff)
qed

lemma calculateCPUPercent_nonneg: "0 \<le> calculateCPUPercent stats"
  unfolding calculateCPUPercent_wrapped Let_def by simp

lemma delta_as_int:
  fixes a b c d :: nat
  assumes "b \<le> a" and "d \<le> c"
  shows "(if 0 < real (c - d) \<and> 0 < real (a - b)
          then real (a - b) / real (c - d) * n * 100 else 0)
       = (if 0 < int a - int b \<and> 0 < int c - int d
          then real_of_int (int a - int b) / real_of_int (int c - int d) * n * 100 else 0)"
proof -
  have "real_of_int (int a - int b) = real (a - b)"
      "real_of_int (int c - int d) = real (c - d)"
    using assms by (simp_all add: of_nat_diff)
  moreover have "0 < int a - int b \<longleftrightarrow> 0 < real (a - b)"
      "0 < int c - int d \<longleftrightarrow> 0 < real (c - d)"
    using assms by auto
  ultimately show ?thesis by presburger
qed

text \<open>
  While neither counter went down between the two samples, the result is the formula
  on the true differences, and 0 unless both are positive.
\<close>

lemma calculateCPUPercent_no_reset:
  assumes "TotalUsage (CPUUsage (PreCPUStats stats)) \<le> TotalUsage (CPUUsage (CPUStats stats))"
    and "SystemUsage (PreCPUStats stats) \<le> SystemUsage (CPUStats stats)"
  shows "calculateCPUPercent stats =
     (let usageDelta = int (unat (TotalUsage (CPUUsage (CPUStats stats))))
                         - int (unat (TotalUsage (CPUUsage (PreCPUStats stats))));
          systemDelta = int (unat (SystemUsage (CPUStats stats)))
                         - int (unat (SystemUsage (PreCPUStats stats)))
      in if 0 < usageDelta \<and> 0 < systemDelta
         then real_of_int usageDelta / real_of_int systemDelta * real (onlineCPUs stats) * 100
         else 0)"
proof -
  have le: "unat (TotalUsage (CPUUsage (PreCPUStats stats)))
              \<le> unat (TotalUsage (CPUUsage (CPUStats stats)))"
      "unat (SystemUsage (PreCPUStats stats)) \<le> unat (SystemUsage (CPUStats stats))"
    using assms by (simp_all only: word_le_nat_alt)
  show ?thesis
    unfolding calculateCPUPercent_wrapped Let_def unat_sub [OF assms(1)] unat_sub [OF assms(2)]
    by (rule delta_as_int [OF le])
qed

text \<open>
  The scenario of the specification: a usage delta of 200,000,000 and a system delta of
  1,000,000,000 on 2 CPUs, with the CPU count reported, taken from the per-core
  counters, and absent.
\<close>

lemma calculateCPUPercent_scenario:
  "calculateCPUPercent (stats_sample 700000000 500000000 3000000000 2000000000 2 [] 0 0) = 40"
  "calculateCPUPercent (stats_sample 700000000 500000000 3000000000 2000000000 0 [1, 2] 0 0) = 40"
  "calculateCPUPercent (stats_sample 700000000 500000000 3000000000 2000000000 0 [] 0 0) = 20"
  by (simp_all add: calculateCPUPercent_def stats_sample_def float64_of_def)

section \<open>The client\<close>

lemma foldl_network_step_fields:
  "cs_ID (foldl network_step r ns) = cs_ID r"
  "cs_Name (foldl network_step r ns) = cs_Name r"
  "cs_MemoryUsage (foldl network_step r ns) = cs_MemoryUsage r"
  "cs_MemoryLimit (foldl network_step r ns) = cs_MemoryLimit r"
  "cs_MemoryPercent (foldl network_step r ns) = cs_MemoryPercent r"
  by (induction ns arbitrary: r) (simp_all add: network_step_def split: prod.splits)

lemma foldl_blkio_step_fields:
  "cs_ID (foldl blkio_step r bs) = cs_ID r"
  "cs_Name (foldl blkio_step r bs) = cs_Name r"
  "cs_MemoryUsage (foldl blkio_step r bs) = cs_MemoryUsage r"
  "cs_MemoryLimit (foldl blkio_step r bs) = cs_MemoryLimit r"
  "cs_MemoryPercent (foldl blkio_step r bs) = cs_MemoryPercent r"
  by (induction bs arbitrary: r) (simp_all add: blkio_step_def)

lemma GetContainerStats_Inr:
  assumes "GetContainerStats e containerID name = Returns (Inr result)"
  shows "\<exists>stats. cli_ContainerStats (cli e) containerID = Inr stats
           \<and> 12 \<le> length containerID
           \<and> cs_ID result = take 12 containerID
           \<and> cs_MemoryUsage result = Usage (MemoryStats stats)
           \<and> cs_MemoryLimit result = Limit (MemoryStats stats)
           \<and> cs_MemoryPercent result =
               (if 0 < Limit (MemoryStats stats)
                then float64_of (Usage (MemoryStats stats))
                       / float64_of (Limit (MemoryStats stats)) * 100
                else 0)"
proof (cases "cli_ContainerStats (cli e) containerID")
  case (Inl err)
  with assms show ?thesis by (simp add: GetContainerStats_def)
next
  case (Inr stats)
  with assms have len: "12 \<le> length containerID"
    by (simp add: GetContainerStats_def split: if_splits)
  with assms Inr show ?thesis
    by (auto simp add: GetContainerStats_def Let_def foldl_network_step_fields
        foldl_blkio_step_fields)
qed

lemma GetContainerStats_no_panic:
  "12 \<le> length containerID \<Longrightarrow> GetContainerStats e containerID name \<noteq> Panics"
  by (simp add: GetContainerStats_def Let_def split: sum.splits)

lemma GetContainerStats_Inl_iff:
  "GetContainerStats e containerID name = Returns (Inl err)
     \<longleftrightarrow> cli_ContainerStats (cli e) containerID = Inl err"
  by (simp add: GetContainerStats_def Let_def split: sum.splits)

lemma InspectContainer_Inr_ID:
  "InspectContainer e containerID = Returns (Inr info) \<Longrightarrow> length (ci_ID info) = 12"
  by (auto simp add: InspectContainer_def Let_def
      split: sum.splits option.splits if_splits)

lemma InspectContainer_Inl_iff:
  "InspectContainer e containerID = Returns (Inl err)
     \<longleftrightarrow> cli_ContainerInspect (cli e) containerID = Inl err"
  by (auto simp add: InspectContainer_def Let_def split: sum.splits option.splits)

lemma InspectContainer_wf:
  assumes "cli_ContainerInspect (cli e) containerID = Inr r" and "inspect_wf r"
  shows "\<exists>info. InspectContainer e containerID = Returns (Inr info)"
  using assms
  by (auto simp add: InspectContainer_def Let_def inspect_wf_def split: option.splits)

lemma InspectContainer_Panics:
  "InspectContainer e containerID = Panics
     \<longleftrightarrow> (\<exists>r. cli_ContainerInspect (cli e) containerID = Inr r \<and> \<not> inspect_wf r)"
  by (auto simp add: InspectContainer_def Let_def inspect_wf_def
      split: sum.splits option.splits)

lemma inspect_loop_eq:
  "\<forall>cont\<in>set cs. InspectContainer e (sum_ID cont) \<noteq> Panics
     \<Longrightarrow> inspect_loop e cs acc = Returns (acc @ inspected e cs)"
proof (induction cs arbitrary: acc)
  case Nil
  then show ?case by (simp add: inspected_def)
next
  case (Cons cont cs)
  then show ?case
    by (cases "InspectContainer e (sum_ID cont)")
      (auto simp add: inspected_def split: sum.splits)
qed

lemma inspect_loop_Panics:
  "\<exists>cont\<in>set cs. InspectContainer e (sum_ID cont) = Panics
     \<Longrightarrow> inspect_loop e cs acc = Panics"
proof (induction cs arbitrary: acc)
  case Nil
  then show ?case by simp
next
  case (Cons cont cs)
  then show ?case
    by (cases "InspectContainer e (sum_ID cont)") (auto split: sum.splits)
qed

lemma in_set_map_filter:
  "y \<in> set (List.map_filter f xs) \<longleftrightarrow> (\<exists>x\<in>set xs. f x = Some y)"
  by (induction xs) (auto split: option.splits)

lemma in_inspected:
  "info \<in> set (inspected e cs)
     \<longleftrightarrow> (\<exists>cont\<in>set cs. InspectContainer e (sum_ID cont) = Returns (Inr info))"
proof -
  have "(case InspectContainer e (sum_ID cont) of
           Returns (Inr i) \<Rightarrow> Some i | _ \<Rightarrow> None) = Some info
         \<longleftrightarrow> InspectContainer e (sum_ID cont) = Returns (Inr info)" for cont
  proof (cases "InspectContainer e (sum_ID cont)")
    case Panics
    then show ?thesis by simp
  next
    case (Returns r)
    then show ?thesis by (cases r) auto
  qed
  then show ?thesis
    unfolding inspected_def in_set_map_filter by blast
qed

lemma inspected_ids: "c \<in> set (inspected e cs) \<Longrightarrow> length (ci_ID c) = 12"
  using InspectContainer_Inr_ID by (auto simp add: in_inspected)

lemma ListContainers_Inr:
  assumes "ListContainers e = Returns (Inr result)"
  shows "\<exists>containers. cli_ContainerList (cli e) = Inr containers
           \<and> result = inspected e containers"
proof (cases "cli_ContainerList (cli e)")
  case (Inl err)
  with assms show ?thesis by (simp add: ListContainers_def)
next
  case (Inr containers)
  show ?thesis
  proof (cases "\<exists>cont\<in>set containers. InspectContainer e (sum_ID cont) = Panics")
    case True
    then have "inspect_loop e containers [] = Panics" by (rule inspect_loop_Panics)
    with assms Inr show ?thesis by (simp add: ListContainers_def)
  next
    case False
    then have "inspect_loop e containers [] = Returns ([] @ inspected e containers)"
      by (intro inspect_loop_eq) simp
    with assms Inr show ?thesis by (simp add: ListContainers_def)
  qed
qed

lemma ListContainers_ids:
  "ListContainers e = Returns (Inr result) \<Longrightarrow> c \<in> set result \<Longrightarrow> length (ci_ID c) = 12"
  using ListContainers_Inr inspected_ids by blast

lemma ListContainers_Inl_iff:
  "ListContainers e = Returns (Inl err) \<longleftrightarrow> cli_ContainerList (cli e) = Inl err"
  by (simp add: ListContainers_def split: sum.splits exec.splits)

section \<open>The goroutines and the channel\<close>

lemma sample_of_ID:
  "sample_of e c = Some s \<Longrightarrow> cs_ID s = take 12 (ci_ID c)"
  using GetContainerStats_Inr
  by (fastforce simp add: sample_of_def split: if_splits exec.splits sum.splits)

lemma fetch_stats_eq:
  "\<forall>c\<in>set cs. 12 \<le> length (ci_ID c)
     \<Longrightarrow> fetch_stats e cs = Returns (List.map_filter (sample_of e) cs)"
proof (induction cs)
  case Nil
  then show ?case by simp
next
  case (Cons c cs)
  then have "GetContainerStats e (ci_ID c) (ci_Name c) \<noteq> Panics"
    by (simp add: GetContainerStats_no_panic)
  with Cons show ?case
    by (cases "GetContainerStats e (ci_ID c) (ci_Name c)")
      (auto simp add: sample_of_def split: sum.splits)
qed

lemma drain_snoc: "drain (xs @ [x]) = (drain xs)(cs_ID x \<mapsto> x)"
  by (simp add: drain_def)

lemma drain_lookup:
  "drain xs i = (case filter (\<lambda>s. cs_ID s = i) xs of [] \<Rightarrow> None | ys \<Rightarrow> Some (last ys))"
proof (induction xs rule: rev_induct)
  case Nil
  then show ?case by (simp add: drain_def)
next
  case (snoc x xs)
  then show ?case
    by (auto simp add: drain_snoc split: list.splits)
qed

lemma mset_short_list:
  assumes "mset ys = mset xs" and "length xs \<le> 1"
  shows "ys = xs"
proof (cases xs)
  case Nil
  with assms show ?thesis by simp
next
  case (Cons x xs')
  with assms have "xs = [x]" by simp
  with assms show ?thesis by simp
qed

lemma samples_for_id_absent:
  assumes "i \<notin> ci_ID ` set cs" and "\<forall>c\<in>set cs. length (ci_ID c) = 12"
  shows "filter (\<lambda>s. cs_ID s = i) (List.map_filter (sample_of e) cs) = []"
proof -
  have "cs_ID s \<noteq> i" if "s \<in> set (List.map_filter (sample_of e) cs)" for s
  proof -
    from that obtain c where c: "c \<in> set cs" "sample_of e c = Some s"
      by (auto simp add: in_set_map_filter)
    then have "cs_ID s = ci_ID c"
      using assms(2) by (simp add: sample_of_ID)
    with c assms(1) show ?thesis by auto
  qed
  then show ?thesis by (simp add: filter_empty_conv)
qed

lemma samples_for_id:
  assumes "c \<in> set cs" and "distinct (map ci_ID cs)"
    and "\<forall>c\<in>set cs. length (ci_ID c) = 12"
  shows "filter (\<lambda>s. cs_ID s = ci_ID c) (List.map_filter (sample_of e) cs)
       = (case sample_of e c of None \<Rightarrow> [] | Some s \<Rightarrow> [s])"
  using assms
proof (induction cs)
  case Nil
  then show ?case by simp
next
  case (Cons c' cs)
  have len: "\<forall>c\<in>set cs. length (ci_ID c) = 12" using Cons.prems by simp
  have own: "cs_ID s = ci_ID c'" if "sample_of e c' = Some s" for s
    using that Cons.prems(3) by (simp add: sample_of_ID)
  show ?case
  proof (cases "c = c'")
    case True
    then have "ci_ID c \<notin> ci_ID ` set cs" using Cons.prems(2) by simp
    then have "filter (\<lambda>s. cs_ID s = ci_ID c) (List.map_filter (sample_of e) cs) = []"
      using len by (rule samples_for_id_absent)
    with True own show ?thesis
      by (cases "sample_of e c'") simp_all
  next
    case False
    then have c: "c \<in> set cs" using Cons.prems(1) by simp
    then have ne: "ci_ID c' \<noteq> ci_ID c" using Cons.prems(2) by auto
    have "filter (\<lambda>s. cs_ID s = ci_ID c) (List.map_filter (sample_of e) cs)
        = (case sample_of e c of None \<Rightarrow> [] | Some s \<Rightarrow> [s])"
      using c Cons.prems(2) len by (intro Cons.IH) simp_all
    with own ne show ?thesis
      by (cases "sample_of e c'") simp_all
  qed
qed

lemma statsMap_lookup:
  assumes "c \<in> set cs" and "distinct (map ci_ID cs)"
    and "\<forall>c\<in>set cs. length (ci_ID c) = 12"
    and "mset arrived = mset (List.map_filter (sample_of e) cs)"
  shows "drain arrived (ci_ID c) = sample_of e c"
proof -
  let ?P = "\<lambda>s. cs_ID s = ci_ID c"
  have sent: "filter ?P (List.map_filter (sample_of e) cs)
      = (case sample_of e c of None \<Rightarrow> [] | Some s \<Rightarrow> [s])"
    using assms(1-3) by (rule samples_for_id)
  have "mset (filter ?P arrived) = mset (filter ?P (List.map_filter (sample_of e) cs))"
    using assms(4) by simp
  moreover have "length (filter ?P (List.map_filter (sample_of e) cs)) \<le> 1"
    unfolding sent by (simp split: option.splits)
  ultimately have "filter ?P arrived = filter ?P (List.map_filter (sample_of e) cs)"
    by (rule mset_short_list)
  then show ?thesis
    unfolding drain_lookup sent by (simp split: option.splits)
qed

section \<open>The emitting loop\<close>

lemma snd_emitContainer:
  "snd (emitContainer e sm k c) = (if reads_clock c then Suc k else k)"
  by (simp add: emitContainer_def Let_def time_Since_def time_Now_def reads_clock_def
      split: prod.splits)

lemma fst_emit_loop_Cons:
  "fst (emit_loop e sm k (c # cs))
     = fst (emitContainer e sm k c) @ fst (emit_loop e sm (snd (emitContainer e sm k c)) cs)"
  by (simp split: prod.splits)

lemma snd_emit_loop_Cons:
  "snd (emit_loop e sm k (c # cs)) = snd (emit_loop e sm (snd (emitContainer e sm k c)) cs)"
  by (simp split: prod.splits)

lemma snd_emit_loop:
  "snd (emit_loop e sm k cs) = k + length (filter reads_clock cs)"
  by (induction cs arbitrary: k) (simp_all add: snd_emit_loop_Cons snd_emitContainer del: emit_loop.simps(2))

lemma fst_emit_loop_append:
  "fst (emit_loop e sm k (xs @ ys))
     = fst (emit_loop e sm k xs) @ fst (emit_loop e sm (snd (emit_loop e sm k xs)) ys)"
  by (induction xs arbitrary: k)
    (simp_all add: fst_emit_loop_Cons snd_emit_loop_Cons del: emit_loop.simps(2))

lemma map_desc_resourceMetrics:
  "map m_desc (resourceMetrics c s)
     = [containerCPUPercent, containerCPUUsageSeconds,
        containerMemoryUsage, containerMemoryLimit, containerMemoryPercent]
       @ concat (map (\<lambda>n. [containerNetworkRxBytes, containerNetworkTxBytes]) (cs_Networks s))
       @ [containerBlkioReadBytes, containerBlkioWriteBytes]"
  by (simp add: resourceMetrics_def MustNewConstMetric_def map_concat o_def split_def)

lemma resourceMetrics_desc:
  "m \<in> set (resourceMetrics c s) \<Longrightarrow> m_desc m \<in> set resource_descs"
proof -
  assume "m \<in> set (resourceMetrics c s)"
  then have "m_desc m \<in> set (map m_desc (resourceMetrics c s))" by simp
  then show ?thesis
    unfolding map_desc_resourceMetrics
    by (auto simp add: resource_descs_def split: if_splits)
qed

lemma resourceMetrics_label:
  "m \<in> set (resourceMetrics c s) \<Longrightarrow> take 1 (m_labelValues m) = [ci_ID c]"
  by (auto simp add: resourceMetrics_def MustNewConstMetric_def)

lemma emitContainer_split:
  "\<exists>core. fst (emitContainer e sm k c)
            = core @ (case sm (ci_ID c) of Some s \<Rightarrow> resourceMetrics c s | None \<Rightarrow> [])
      \<and> map m_desc core = coreMetrics_descs c
      \<and> (\<forall>m\<in>set core. take 1 (m_labelValues m) = [ci_ID c])"
  by (simp add: emitContainer_def Let_def MustNewConstMetric_def coreMetrics_descs_def
      split: prod.splits)

lemma coreMetrics_descs_container: "set (coreMetrics_descs c) \<subseteq> set container_descs"
  by (auto simp add: coreMetrics_descs_def container_descs_def)

lemma coreMetrics_descs_not_resource: "d \<in> set (coreMetrics_descs c) \<Longrightarrow> d \<notin> set resource_descs"
  by (auto simp add: coreMetrics_descs_def resource_descs_def split: if_splits)

lemma resource_descs_container: "set resource_descs \<subseteq> set container_descs"
  by (auto simp add: container_descs_def)

lemma emitContainer_member:
  assumes "m \<in> set (fst (emitContainer e sm k c))"
  shows "take 1 (m_labelValues m) = [ci_ID c]" and "m_desc m \<in> set container_descs"
proof -
  obtain core where core: "fst (emitContainer e sm k c)
        = core @ (case sm (ci_ID c) of Some s \<Rightarrow> resourceMetrics c s | None \<Rightarrow> [])"
      "map m_desc core = coreMetrics_descs c"
      "\<forall>m\<in>set core. take 1 (m_labelValues m) = [ci_ID c]"
    using emitContainer_split by blast
  from assms core(1) consider "m \<in> set core"
    | s where "sm (ci_ID c) = Some s" "m \<in> set (resourceMetrics c s)"
    by (auto split: option.splits)
  then have "take 1 (m_labelValues m) = [ci_ID c] \<and> m_desc m \<in> set container_descs"
  proof cases
    case 1
    then have "m_desc m \<in> set (map m_desc core)" by simp
    with 1 core(2,3) coreMetrics_descs_container show ?thesis by auto
  next
    case 2
    with resourceMetrics_desc resourceMetrics_label resource_descs_container
    show ?thesis by blast
  qed
  then show "take 1 (m_labelValues m) = [ci_ID c]" and "m_desc m \<in> set container_descs"
    by simp_all
qed

lemma emit_loop_member:
  "m \<in> set (fst (emit_loop e sm k cs))
     \<Longrightarrow> m_desc m \<in> set container_descs \<and> (\<exists>c\<in>set cs. take 1 (m_labelValues m) = [ci_ID c])"
proof (induction cs arbitrary: k)
  case Nil
  then show ?case by simp
next
  case (Cons c cs)
  from Cons.prems consider "m \<in> set (fst (emitContainer e sm k c))"
    | "m \<in> set (fst (emit_loop e sm (snd (emitContainer e sm k c)) cs))"
    unfolding fst_emit_loop_Cons by auto
  then show ?case
  proof cases
    case 1
    then show ?thesis using emitContainer_member by auto
  next
    case 2
    then show ?thesis using Cons.IH by auto
  qed
qed

lemma emit_loop_other:
  assumes "ci_ID c \<notin> ci_ID ` set cs"
  shows "filter (\<lambda>m. take 1 (m_labelValues m) = [ci_ID c]) (fst (emit_loop e sm k cs)) = []"
proof -
  have "take 1 (m_labelValues m) \<noteq> [ci_ID c]" if "m \<in> set (fst (emit_loop e sm k cs))" for m
    using emit_loop_member [OF that] assms by auto
  then show ?thesis by (simp add: filter_empty_conv)
qed

lemma emit_loop_block:
  assumes "distinct (map ci_ID (before @ c # after))"
  shows "filter (\<lambda>m. take 1 (m_labelValues m) = [ci_ID c])
           (fst (emit_loop e sm k (before @ c # after)))
       = fst (emitContainer e sm (k + length (filter reads_clock before)) c)"
proof -
  let ?P = "\<lambda>m. take 1 (m_labelValues m) = [ci_ID c]"
  have b: "filter ?P (fst (emit_loop e sm k before)) = []"
    using assms by (intro emit_loop_other) auto
  have a: "filter ?P (fst (emit_loop e sm k' after)) = []" for k'
    using assms by (intro emit_loop_other) auto
  have own: "filter ?P (fst (emitContainer e sm k' c)) = fst (emitContainer e sm k' c)" for k'
    using emitContainer_member(1) by (simp add: filter_id_conv)
  show ?thesis
    unfolding fst_emit_loop_append fst_emit_loop_Cons filter_append b a own snd_emit_loop
    by simp
qed

section \<open>The scrape\<close>

lemma fetch_stats_listing:
  assumes "ListContainers e = Returns (Inr cs)"
  shows "fetch_stats e cs = Returns (List.map_filter (sample_of e) cs)"
  using ListContainers_ids [OF assms] by (intro fetch_stats_eq) auto

lemma collectContainerMetrics_Inr:
  assumes "ListContainers e = Returns (Inr cs)"
  shows "collectContainerMetrics e sched k = Returns (emit_loop e (statsMap_of e sched cs) k cs)"
proof (cases cs)
  case Nil
  with assms show ?thesis by (simp add: collectContainerMetrics_def)
next
  case (Cons c cs')
  then have "length cs \<noteq> 0" by simp
  then show ?thesis
    by (simp add: collectContainerMetrics_def assms fetch_stats_listing [OF assms]
        statsMap_of_def)
qed

lemma Collect_Inr:
  assumes "ListContainers e = Returns (Inr cs)"
  shows "Collector_Collect e sched =
           Returns ([buildInfo_metric e]
                    @ fst (emit_loop e (statsMap_of e sched cs) 1 cs)
                    @ collectEngineMetrics e
                    @ [scrapeDuration_metric e (1 + length (filter reads_clock cs))])"
proof -
  have "snd (emit_loop e (statsMap_of e sched cs) (Suc 0) cs) = 1 + length (filter reads_clock cs)"
    by (simp add: snd_emit_loop)
  then show ?thesis
    by (simp add: Collector_Collect_def time_Now_def collectContainerMetrics_Inr [OF assms]
        time_Since_mono_def buildInfo_metric_def scrapeDuration_metric_def
        split_beta)
qed

lemma Collect_Inl:
  assumes "ListContainers e = Returns (Inl err)"
  shows "Collector_Collect e sched =
           Returns ([buildInfo_metric e] @ collectEngineMetrics e @ [scrapeDuration_metric e 1])"
  using assms
  by (simp add: Collector_Collect_def time_Now_def collectContainerMetrics_def
      time_Since_mono_def buildInfo_metric_def scrapeDuration_metric_def)

lemma collectEngineMetrics_desc:
  "m \<in> set (collectEngineMetrics e) \<Longrightarrow> m_desc m \<in> {engineInfo, containersTotal, imagesTotal}"
  by (auto simp add: collectEngineMetrics_def MustNewConstMetric_def split: sum.splits)

lemma fixed_descs_not_container:
  "buildInfo \<notin> set container_descs" "scrapeDuration \<notin> set container_descs"
  "engineInfo \<notin> set container_descs" "containersTotal \<notin> set container_descs"
  "imagesTotal \<notin> set container_descs"
  by (simp_all add: container_descs_def resource_descs_def)

lemma filter_engine_metrics:
  "filter (\<lambda>m. m_desc m \<in> set container_descs \<and> P m) (collectEngineMetrics e) = []"
  using collectEngineMetrics_desc fixed_descs_not_container
  by (fastforce simp add: filter_empty_conv)

lemma container_metrics_of_Collect:
  assumes "ListContainers e = Returns (Inr (before @ c # after))"
    and "distinct (map ci_ID (before @ c # after))"
  shows "\<exists>out. Collector_Collect e sched = Returns out
           \<and> container_metrics_of out c
               = fst (emitContainer e (statsMap_of e sched (before @ c # after))
                        (uptime_reading before) c)"
proof -
  let ?sm = "statsMap_of e sched (before @ c # after)"
  let ?loop = "fst (emit_loop e ?sm 1 (before @ c # after))"
  have "filter (\<lambda>m. m_desc m \<in> set container_descs \<and> take 1 (m_labelValues m) = [ci_ID c]) ?loop
      = filter (\<lambda>m. take 1 (m_labelValues m) = [ci_ID c]) ?loop"
    using emit_loop_member by (intro filter_cong) auto
  also have "\<dots> = fst (emitContainer e ?sm (1 + length (filter reads_clock before)) c)"
    using assms(2) by (rule emit_loop_block)
  finally show ?thesis
    unfolding Collect_Inr [OF assms(1)] container_metrics_of_def uptime_reading_def
    by (simp add: filter_engine_metrics buildInfo_metric_def scrapeDuration_metric_def
        MustNewConstMetric_def fixed_descs_not_container)
qed

lemma statsMap_of_lookup:
  assumes "ListContainers e = Returns (Inr cs)" and "distinct (map ci_ID cs)"
    and "\<forall>xs. mset (sched xs) = mset xs" and "c \<in> set cs"
  shows "statsMap_of e sched cs (ci_ID c) = sample_of e c"
  unfolding statsMap_of_def
  using assms(4,2) ListContainers_ids [OF assms(1)] assms(3)
  by (intro statsMap_lookup) auto

lemma emitted_iff:
  "d \<in> set container_descs
     \<Longrightarrow> emitted out d c \<longleftrightarrow> d \<in> m_desc ` set (container_metrics_of out c)"
  by (auto simp add: emitted_def list_ex_iff metric_of_def container_metrics_of_def)

lemma filter_metric_of:
  "d \<in> set container_descs
     \<Longrightarrow> filter (metric_of d c) out = filter (\<lambda>m. m_desc m = d) (container_metrics_of out c)"
  unfolding container_metrics_of_def filter_filter metric_of_def
  by (intro filter_cong) auto

lemma resource_metrics_of_eq:
  "resource_metrics_of out c
     = filter (\<lambda>m. m_desc m \<in> set resource_descs) (container_metrics_of out c)"
  unfolding container_metrics_of_def resource_metrics_of_def filter_filter
  using resource_descs_container by (intro filter_cong) auto

lemma descs_emitContainer:
  "m_desc ` set (fst (emitContainer e sm k c))
     = set (coreMetrics_descs c)
       \<union> (case sm (ci_ID c) of Some s \<Rightarrow> m_desc ` set (resourceMetrics c s) | None \<Rightarrow> {})"
proof -
  obtain core where core: "fst (emitContainer e sm k c)
        = core @ (case sm (ci_ID c) of Some s \<Rightarrow> resourceMetrics c s | None \<Rightarrow> [])"
      "map m_desc core = coreMetrics_descs c"
    using emitContainer_split by blast
  have "m_desc ` set core = set (coreMetrics_descs c)"
    using core(2) by (metis set_map)
  then show ?thesis
    unfolding core(1) by (simp add: image_Un split: option.splits)
qed

lemma resource_part_emitContainer:
  "filter (\<lambda>m. m_desc m \<in> set resource_descs) (fst (emitContainer e sm k c))
     = (case sm (ci_ID c) of Some s \<Rightarrow> resourceMetrics c s | None \<Rightarrow> [])"
proof -
  obtain core where core: "fst (emitContainer e sm k c)
        = core @ (case sm (ci_ID c) of Some s \<Rightarrow> resourceMetrics c s | None \<Rightarrow> [])"
      "map m_desc core = coreMetrics_descs c"
    using emitContainer_split by blast
  have "m_desc m \<notin> set resource_descs" if "m \<in> set core" for m
  proof -
    from that have "m_desc m \<in> set (map m_desc core)" by simp
    then show ?thesis using core(2) coreMetrics_descs_not_resource by simp
  qed
  then have "filter (\<lambda>m. m_desc m \<in> set resource_descs) core = []"
    by (simp add: filter_empty_conv)
  moreover have "filter (\<lambda>m. m_desc m \<in> set resource_descs) (resourceMetrics c s)
      = resourceMetrics c s" for s
    using resourceMetrics_desc by (simp add: filter_id_conv)
  ultimately show ?thesis
    unfolding core(1) by (simp split: option.splits)
qed

lemma uptime_part_emitContainer:
  "filter (\<lambda>m. m_desc m = containerUptime) (fst (emitContainer e sm k c))
     = [MustNewConstMetric containerUptime GaugeValue
          (if reads_clock c then Seconds (Sub (wall (clock e k)) (ci_Started c)) else 0)
          [ci_ID c, ci_Name c]]"
proof -
  have "filter (\<lambda>m. m_desc m = containerUptime) (resourceMetrics c s) = []" for s
  proof -
    have "m_desc m \<noteq> containerUptime" if "m \<in> set (resourceMetrics c s)" for m
      using resourceMetrics_desc [OF that] by (auto simp add: resource_descs_def)
    then show ?thesis by (simp add: filter_empty_conv)
  qed
  then show ?thesis
    by (simp add: emitContainer_def Let_def MustNewConstMetric_def reads_clock_def
        time_Since_def time_Now_def split: option.splits)
qed

lemma emitContainer_subset:
  assumes "c \<in> set cs"
  shows "\<exists>k'. set (fst (emitContainer e sm k' c)) \<subseteq> set (fst (emit_loop e sm k cs))"
proof -
  from assms obtain before after where "cs = before @ c # after"
    by (auto dest: split_list)
  then show ?thesis
    by (auto simp add: fst_emit_loop_append fst_emit_loop_Cons simp del: emit_loop.simps)
qed

lemma info_in_emitContainer:
  "list_ex (metric_of containerInfo c) (fst (emitContainer e sm k c))"
  by (simp add: emitContainer_def Let_def MustNewConstMetric_def metric_of_def split_beta)

section \<open>The listings of the examples\<close>

lemma ListContainers_env_three:
  "ListContainers env_three
     = Returns (Inr [demo_container ''aaaaaaaaaaaa'' ''web-a'' ''running'' True 63871286390000000000,
                     demo_container ''bbbbbbbbbbbb'' ''web-b'' ''running'' True 63871286390000000000,
                     demo_container ''cccccccccccc'' ''web-c'' ''running'' True 63871286390000000000])"
  by (simp add: ListContainers_def env_three_def InspectContainer_def demo_env_def
      demo_inspect_def demo_container_def demo_Parse_def Let_def TrimPrefix_def)

lemma ListContainers_env_removed:
  "ListContainers env_removed
     = Returns (Inr [demo_container ''aaaaaaaaaaaa'' ''web-a'' ''exited'' False 63871286390000000000,
                     demo_container ''cccccccccccc'' ''web-c'' ''exited'' False 63871286390000000000])"
  by (simp add: ListContainers_def env_removed_def InspectContainer_def demo_env_def
      demo_inspect_def demo_container_def demo_Parse_def Let_def TrimPrefix_def)

lemma ListContainers_env_never_started:
  "ListContainers env_never_started
     = Returns (Inr [demo_container ''aaaaaaaaaaaa'' ''job'' ''created'' False 0])"
  by (simp add: ListContainers_def env_never_started_def InspectContainer_def demo_env_def
      demo_inspect_def demo_container_def demo_Parse_def Let_def TrimPrefix_def)

lemma ListContainers_env_uptime:
  "ListContainers env_uptime
     = Returns (Inr [demo_container ''aaaaaaaaaaaa'' ''past'' ''running'' True 63871286390000000000,
                     demo_container ''bbbbbbbbbbbb'' ''ahead'' ''running'' True 63871286405000000000])"
  by (simp add: ListContainers_def env_uptime_def InspectContainer_def demo_env_def
      demo_inspect_def demo_container_def demo_Parse_def Let_def TrimPrefix_def)

section \<open>The claims\<close>

text \<open>
  C3, at a counter reset. The claim: CPU percent is \<open>(usageDelta / systemDelta) * onlineCPUs * 100\<close>
  when both deltas are strictly positive and 0 otherwise. When the total usage went
  down from 200 to 100 while the system usage went up from 1000 to 2000, the usage
  delta is negative and the claim gives 0; the code subtracts in \<^verbatim>\<open>uint64\<close>, obtains
  \<open>2 ^ 64 - 100\<close>, passes its own test \<^verbatim>\<open>cpuDelta > 0\<close> and returns more than
  \<open>10 ^ 18\<close> percent.
\<close>

theorem calculateCPUPercent_counter_reset:
  "calculateCPUPercent (stats_sample 100 200 2000 1000 1 [] 0 0) = 18446744073709551516 / 10
   \<and> 10 ^ 18 < calculateCPUPercent (stats_sample 100 200 2000 1000 1 [] 0 0)"
  by (simp add: calculateCPUPercent_def stats_sample_def float64_of_def)

text \<open>
  C5. \<^verbatim>\<open>stateToCode\<close> is total: running is 1, paused 2, restarting 3, exited 4, dead 5,
  created 6, every other string 0; so every string has a code among 0, ..., 6.
\<close>

theorem stateToCode_total:
  "stateToCode ''running'' = 1 \<and> stateToCode ''paused'' = 2 \<and> stateToCode ''restarting'' = 3
   \<and> stateToCode ''exited'' = 4 \<and> stateToCode ''dead'' = 5 \<and> stateToCode ''created'' = 6
   \<and> (s \<notin> {''running'', ''paused'', ''restarting'', ''exited'', ''dead'', ''created''}
        \<longrightarrow> stateToCode s = 0)
   \<and> stateToCode s \<in> {0, 1, 2, 3, 4, 5, 6}"
  by (simp add: stateToCode_def)

theorem stateToCode_total_witness:
  "''removing'' \<notin> {''running'', ''paused'', ''restarting'', ''exited'', ''dead'', ''created''}
   \<and> stateToCode ''removing'' = 0"
  using stateToCode_total [of "''removing''"] by simp

text \<open>
  C6. \<^verbatim>\<open>healthToCode\<close> is total: healthy is 1, unhealthy 0, starting 2, and none, the
  empty string and every other string are -1.
\<close>

theorem healthToCode_total:
  "healthToCode ''healthy'' = 1 \<and> healthToCode ''unhealthy'' = 0
   \<and> healthToCode ''starting'' = 2 \<and> healthToCode ''none'' = - 1 \<and> healthToCode [] = - 1
   \<and> (h \<notin> {''healthy'', ''unhealthy'', ''starting''} \<longrightarrow> healthToCode h = - 1)"
  by (simp add: healthToCode_def)

theorem healthToCode_total_witness:
  "''paused'' \<notin> {''healthy'', ''unhealthy'', ''starting''} \<and> healthToCode ''paused'' = - 1"
  using healthToCode_total [of "''paused''"] by simp

end
